theory Spec2Isabelle
  imports Complex_Main "HOL-Library.AList"
begin

text \<open>
  A shallow embedding of the authentication backend: the OTP rate limiter, phone
  normalisation and validation, the verification gateway, session tokens, and the routes
  that send and verify a code, register a profile and update it. Every function takes
  what the code reads from its surroundings as arguments: the clock (\<open>now\<close>, the value of
  \<^verbatim>\<open>Date.now()\<close> in milliseconds), the environment variables, the rate limiter's map, the
  stored profiles, and the behaviour of the SMS provider. A function that changes the map
  or the profiles returns the new ones. A string is the list of its UTF-16 code units, and
  a character is a code unit below 256; text with other code units is outside the model.
\<close>

section \<open>JavaScript values and strings\<close>

text \<open>
  A parsed JSON value. \<open>JDate v\<close> stands for the object \<^verbatim>\<open>new Date(v)\<close> and
  \<open>JParseInt v\<close> for the number \<^verbatim>\<open>parseInt(v)\<close>; both conversions are kept symbolic. A
  JSON object is an association list from keys to values; a key that is not in the list
  reads as \<^verbatim>\<open>undefined\<close>.
\<close>

datatype jsval =
    JNull
  | JBool bool
  | JNum real
  | JStr string
  | JArr "jsval list"
  | JObj "(string \<times> jsval) list"
  | JDate jsval
  | JParseInt jsval

type_synonym jsobject = "(string \<times> jsval) list"

text \<open>Truthiness of a present value: \<^verbatim>\<open>null\<close>, \<^verbatim>\<open>false\<close>, \<^verbatim>\<open>0\<close> and \<^verbatim>\<open>""\<close> are falsy.\<close>

fun truthy :: "jsval \<Rightarrow> bool" where
  "truthy JNull = False"
| "truthy (JBool b) = b"
| "truthy (JNum n) = (n \<noteq> 0)"
| "truthy (JStr s) = (s \<noteq> [])"
| "truthy (JArr _) = True"
| "truthy (JObj _) = True"
| "truthy (JDate _) = True"
| "truthy (JParseInt _) = True"

text \<open>Truthiness of a property read: an absent property is \<^verbatim>\<open>undefined\<close>, which is falsy.\<close>

definition truthy_prop :: "jsval option \<Rightarrow> bool" where
  "truthy_prop v = (case v of None \<Rightarrow> False | Some x \<Rightarrow> truthy x)"

text \<open>\<^verbatim>\<open>\d\<close> of a regular expression without the unicode flag: the ten ASCII digits.\<close>

definition is_digit :: "char \<Rightarrow> bool" where
  "is_digit c = (c \<in> set ''0123456789'')"

definition startsWith :: "string \<Rightarrow> string \<Rightarrow> bool" where
  "startsWith s p = (take (length p) s = p)"

text \<open>\<^verbatim>\<open>s.includes(sub)\<close>: \<open>sub\<close> occurs in \<open>s\<close> as a contiguous piece.\<close>

fun js_includes :: "string \<Rightarrow> string \<Rightarrow> bool" where
  "js_includes [] sub = (sub = [])"
| "js_includes (c # cs) sub = (startsWith (c # cs) sub \<or> js_includes cs sub)"

text \<open>
  White space as \<^verbatim>\<open>trim\<close> strips it from both ends, \<^verbatim>\<open>\s\<close> of a regular expression:
  among the code units below 256 these are the space, tab, line feed, vertical tab, form
  feed, carriage return and the no-break space U+00A0.
\<close>

definition is_space :: "char \<Rightarrow> bool" where
  "is_space c =
     (c \<in> set [CHR '' '', CHR 0x09, CHR 0x0A, CHR 0x0B, CHR 0x0C, CHR 0x0D, CHR 0xA0])"

definition trim :: "string \<Rightarrow> string" where
  "trim s = rev (dropWhile is_space (rev (dropWhile is_space s)))"

text \<open>Decimal rendering of an integer, as a template literal prints a number.\<close>

definition digit_char :: "nat \<Rightarrow> char" where
  "digit_char d = ''0123456789'' ! d"

fun show_nat :: "nat \<Rightarrow> string" where
  "show_nat n = (if n < 10 then [digit_char n] else show_nat (n div 10) @ [digit_char (n mod 10)])"

declare show_nat.simps [simp del]

definition show_int :: "int \<Rightarrow> string" where
  "show_int i = (if i < 0 then CHR ''-'' # show_nat (nat (- i)) else show_nat (nat i))"

section \<open>Responses and errors\<close>

text \<open>
  The JSON body of a response carries \<^verbatim>\<open>success\<close> and, depending on the route,
  \<^verbatim>\<open>message\<close>, \<^verbatim>\<open>token\<close>, \<^verbatim>\<open>isNewUser\<close> and \<^verbatim>\<open>user\<close>; a field that is \<open>None\<close> is not
  present in the body.
\<close>

record response =
  status :: nat
  success :: bool
  message :: "string option"
  token :: "string option"
  isNewUser :: "bool option"
  user :: "jsobject option"

definition failure :: "nat \<Rightarrow> string \<Rightarrow> response" where
  "failure st msg = \<lparr>status = st, success = False, message = Some msg, token = None,
     isNewUser = None, user = None\<rparr>"

text \<open>
  A thrown JavaScript error, with the properties the handlers inspect: \<^verbatim>\<open>name\<close>,
  \<^verbatim>\<open>message\<close>, the numeric \<^verbatim>\<open>code\<close> and \<^verbatim>\<open>status\<close> (absent when \<open>None\<close>) and the
  messages of the sub-errors under \<^verbatim>\<open>errors\<close>.
\<close>

record js_error =
  err_name :: string
  err_message :: string
  err_code :: "int option"
  err_status :: "int option"
  err_errors :: "string list"

definition Error :: "string \<Rightarrow> js_error" where
  "Error msg = \<lparr>err_name = ''Error'', err_message = msg, err_code = None, err_status = None,
     err_errors = []\<rparr>"

text \<open>
  How a route ends: with a response, or by handing an error to the application's
  central error handler (\<^verbatim>\<open>next(error)\<close>).
\<close>

datatype outcome = Respond response | Unhandled js_error

section \<open>Phone normalisation and validation (middleware/validators.js)\<close>

text \<open>
  The fields \<^verbatim>\<open>phone\<close>, \<^verbatim>\<open>otp\<close> and \<^verbatim>\<open>name\<close> of a request body are modelled as a string
  or absent (\<open>None\<close>); a body with another JSON type in one of them is outside the model.
  \<^verbatim>\<open>normalizePhone\<close> leaves a falsy phone (absent or empty) as it is.
\<close>

definition normalizePhone :: "string option \<Rightarrow> string option" where
  "normalizePhone phone0 =
     (case phone0 of
        None \<Rightarrow> None
      | Some p0 \<Rightarrow>
          if p0 = [] then Some p0
          else
            let phone = filter (\<lambda>c. is_digit c \<or> c = CHR ''+'') p0 in
            Some (if \<not> startsWith phone ''+91''
                  then (if startsWith phone ''91'' \<and> length phone = 12 then ''+'' @ phone
                        else if length phone = 10 then ''+91'' @ phone
                        else phone)
                  else phone))"

text \<open>\<^verbatim>\<open>[6-9]\d{9}\<close> on a whole string.\<close>

definition mobile10 :: "string \<Rightarrow> bool" where
  "mobile10 s = (case s of [] \<Rightarrow> False
                 | c # cs \<Rightarrow> c \<in> set ''6789'' \<and> length cs = 9 \<and> list_all is_digit cs)"

text \<open>\<^verbatim>\<open>/^(\+91)?[6-9]\d{9}$/\<close>, the pattern of the send-OTP rule.\<close>

definition matches_optional91 :: "string \<Rightarrow> bool" where
  "matches_optional91 s = (mobile10 s \<or> (startsWith s ''+91'' \<and> mobile10 (drop 3 s)))"

text \<open>\<^verbatim>\<open>/^\+91[6-9]\d{9}$/\<close>, the pattern of the verify-OTP and register rules.\<close>

definition matches_plus91 :: "string \<Rightarrow> bool" where
  "matches_plus91 s = (startsWith s ''+91'' \<and> mobile10 (drop 3 s))"

text \<open>\<^verbatim>\<open>/^\d{6}$/\<close>.\<close>

definition matches_d6 :: "string \<Rightarrow> bool" where
  "matches_d6 s = (length s = 6 \<and> list_all is_digit s)"

text \<open>
  A validation chain sanitises the field with \<^verbatim>\<open>trim\<close> (the trimmed value replaces the
  field in the request) and runs every validator; \<^verbatim>\<open>handleValidationErrors\<close> answers 400
  with the first message. An absent field is validated as the empty string. Each function
  returns the message of the first failing validator, or the sanitised value.
\<close>

definition sendOtpValidation :: "string option \<Rightarrow> string + string" where
  "sendOtpValidation phone =
     (let p = trim (case phone of None \<Rightarrow> [] | Some s \<Rightarrow> s) in
      if p = [] then Inl ''Phone number is required''
      else if \<not> matches_optional91 p
        then Inl ''Invalid Indian phone number. Must start with 6-9 and be 10 digits.''
      else Inr p)"

definition phoneValidation :: "string option \<Rightarrow> string + string" where
  "phoneValidation phone =
     (let p = trim (case phone of None \<Rightarrow> [] | Some s \<Rightarrow> s) in
      if p = [] then Inl ''Phone number is required''
      else if \<not> matches_plus91 p
        then Inl ''Invalid phone number format. Must be +91XXXXXXXXXX''
      else Inr p)"

definition otpValidation :: "string option \<Rightarrow> string + string" where
  "otpValidation otp =
     (let v = trim (case otp of None \<Rightarrow> [] | Some s \<Rightarrow> s) in
      if v = [] then Inl ''OTP is required''
      else if length v \<noteq> 6 then Inl ''OTP must be 6 digits''
      else if \<not> matches_d6 v then Inl ''OTP must contain only digits''
      else Inr v)"

definition nameValidation :: "string option \<Rightarrow> string + string" where
  "nameValidation name =
     (let v = trim (case name of None \<Rightarrow> [] | Some s \<Rightarrow> s) in
      if v = [] then Inl ''Name is required''
      else if length v < 2 then Inl ''Name must be at least 2 characters''
      else Inr v)"

section \<open>The OTP rate limiter (middleware/rateLimiter.js)\<close>

record entry =
  count :: int
  resetTime :: int
  blocked :: bool

type_synonym rate_store = "string \<rightharpoonup> entry"

definition maxAttempts :: int where "maxAttempts = 3"
definition windowMs :: int where "windowMs = 60 * 1000"
definition blockDurationMs :: int where "blockDurationMs = 5 * 60 * 1000"

text \<open>The sweep: every entry whose \<open>resetTime\<close> has passed is deleted.\<close>

definition cleanupExpiredEntries :: "int \<Rightarrow> rate_store \<Rightarrow> rate_store" where
  "cleanupExpiredEntries now store =
     (\<lambda>key. case store key of
               None \<Rightarrow> None
             | Some v \<Rightarrow> if now > resetTime v then None else Some v)"

text \<open>\<^verbatim>\<open>Math.ceil((entry.resetTime - now) / 1000)\<close>: a division of numbers, then the ceiling.\<close>

definition remainingTime :: "entry \<Rightarrow> int \<Rightarrow> int" where
  "remainingTime e now = \<lceil>real_of_int (resetTime e - now) / 1000\<rceil>"

datatype limiter_result = Next | Deny response

text \<open>
  One call of the middleware at time \<open>now\<close> (the value of \<^verbatim>\<open>Date.now()\<close>) on the store;
  the result is the new store and whether the request goes on (\<^verbatim>\<open>next()\<close>) or is answered.
\<close>

definition otpRateLimiter :: "int \<Rightarrow> string option \<Rightarrow> rate_store \<Rightarrow> rate_store \<times> limiter_result" where
  "otpRateLimiter now phone store =
     (case phone of
        None \<Rightarrow> (store, Next)
      | Some p \<Rightarrow>
          if p = [] then (store, Next)
          else
            let key = filter is_digit p in
            (case store key of
               None \<Rightarrow>
                 (store(key \<mapsto> \<lparr>count = 1, resetTime = now + windowMs, blocked = False\<rparr>), Next)
             | Some e \<Rightarrow>
                 if now > resetTime e
                 then (store(key \<mapsto> \<lparr>count = 1, resetTime = now + windowMs, blocked = False\<rparr>),
                       Next)
                 else if blocked e
                 then (store,
                       Deny (failure 429 (''Too many requests. Please try again in ''
                               @ show_int (remainingTime e now) @ '' seconds.'')))
                 else
                   let e1 = e\<lparr>count := count e + 1\<rparr> in
                   if count e1 > maxAttempts
                   then (store(key \<mapsto> e1\<lparr>blocked := True, resetTime := now + blockDurationMs\<rparr>),
                         Deny (failure 429
                                 ''Too many OTP requests. Please try again in 5 minutes.''))
                   else (store(key \<mapsto> e1), Next)))"

section \<open>The verification gateway (services/twilioService.js)\<close>

text \<open>
  The environment variables the code reads; \<open>None\<close> is an unset variable. An unset or
  empty variable is falsy.
\<close>

record env =
  TWILIO_ACCOUNT_SID :: "string option"
  TWILIO_AUTH_TOKEN :: "string option"
  TWILIO_VERIFY_SERVICE_SID :: "string option"
  SMS_MODE :: "string option"
  JWT_SECRET :: "string option"
  JWT_EXPIRES_IN :: "string option"

definition is_set :: "string option \<Rightarrow> bool" where
  "is_set v = (case v of None \<Rightarrow> False | Some s \<Rightarrow> s \<noteq> [])"

text \<open>\<^verbatim>\<open>process.env.X || d\<close>.\<close>

definition or_default :: "string option \<Rightarrow> string \<Rightarrow> string" where
  "or_default v d = (case v of None \<Rightarrow> d | Some s \<Rightarrow> if s = [] then d else s)"

record verification =
  v_status :: string
  v_to :: string
  v_channel :: string
  v_valid :: bool

record verification_check =
  c_status :: string
  c_valid :: bool

text \<open>
  The provider's library, taken as a parameter: the construction of a client from the
  account SID and the auth token, \<^verbatim>\<open>twilio(accountSid, authToken)\<close>, which may throw
  (\<open>Some\<close> error), and the client's two calls, \<open>verifications_create sid to channel\<close> and
  \<open>verificationChecks_create sid to code\<close> (which yields the check's status); either may
  reject with an error.
\<close>

record provider =
  twilio :: "string \<Rightarrow> string \<Rightarrow> js_error option"
  verifications_create :: "string \<Rightarrow> string \<Rightarrow> string \<Rightarrow> js_error + verification"
  verificationChecks_create :: "string \<Rightarrow> string \<Rightarrow> string \<Rightarrow> js_error + string"

text \<open>
  \<^verbatim>\<open>getClient\<close>: the client is built from the credentials on first use and kept once
  built; with a fixed environment and library every call fails or succeeds alike.
\<close>

definition getClient :: "env \<Rightarrow> provider \<Rightarrow> js_error + unit" where
  "getClient ev prov =
     (case (TWILIO_ACCOUNT_SID ev, TWILIO_AUTH_TOKEN ev) of
        (Some accountSid, Some authToken) \<Rightarrow>
          if accountSid = [] \<or> authToken = []
          then Inl (Error ''Twilio credentials not configured'')
          else (case twilio prov accountSid authToken of
                  Some e \<Rightarrow> Inl e
                | None \<Rightarrow> Inr ())
      | _ \<Rightarrow> Inl (Error ''Twilio credentials not configured''))"

definition sendOTP :: "env \<Rightarrow> provider \<Rightarrow> string \<Rightarrow> js_error + verification" where
  "sendOTP ev prov phoneNumber =
     (case TWILIO_VERIFY_SERVICE_SID ev of
        None \<Rightarrow> Inl (Error ''Twilio Verify Service SID not configured'')
      | Some serviceSid \<Rightarrow>
          if serviceSid = [] then Inl (Error ''Twilio Verify Service SID not configured'')
          else
            let smsMode = or_default (SMS_MODE ev) ''live'' in
            if smsMode = ''test''
            then Inr \<lparr>v_status = ''pending'', v_to = phoneNumber, v_channel = ''sms'',
                      v_valid = True\<rparr>
            else
              (case getClient ev prov of
                 Inl e \<Rightarrow> Inl e
               | Inr _ \<Rightarrow>
                   (case verifications_create prov serviceSid phoneNumber ''sms'' of
                      Inl e \<Rightarrow> Inl e
                    | Inr v \<Rightarrow> Inr \<lparr>v_status = v_status v, v_to = v_to v,
                                     v_channel = v_channel v, v_valid = v_valid v\<rparr>)))"

definition verifyOTP :: "env \<Rightarrow> provider \<Rightarrow> string \<Rightarrow> string \<Rightarrow> js_error + verification_check" where
  "verifyOTP ev prov phoneNumber otp =
     (case TWILIO_VERIFY_SERVICE_SID ev of
        None \<Rightarrow> Inl (Error ''Twilio Verify Service SID not configured'')
      | Some serviceSid \<Rightarrow>
          if serviceSid = [] then Inl (Error ''Twilio Verify Service SID not configured'')
          else
            let smsMode = or_default (SMS_MODE ev) ''live'' in
            if smsMode = ''test''
            then (if length otp = 6 \<and> matches_d6 otp
                  then Inr \<lparr>c_status = ''approved'', c_valid = True\<rparr>
                  else Inr \<lparr>c_status = ''pending'', c_valid = False\<rparr>)
            else
              (case getClient ev prov of
                 Inl e \<Rightarrow> Inl e
               | Inr _ \<Rightarrow>
                   (case verificationChecks_create prov serviceSid phoneNumber otp of
                      Inl e \<Rightarrow> Inl e
                    | Inr st \<Rightarrow> Inr \<lparr>c_status = st, c_valid = (st = ''approved'')\<rparr>)))"

definition errorMessages :: "(int \<times> string) list" where
  "errorMessages =
     [(20003, ''Authentication failed. Check Twilio credentials.''),
      (20404, ''Twilio Verify service not found.''),
      (21211, ''Invalid phone number format.''),
      (21408, ''Phone number not verified for trial account.''),
      (21610, ''SMS sending blocked for this number.''),
      (21614, ''Invalid mobile number.''),
      (60200, ''Invalid parameter.''),
      (60203, ''Max send attempts reached. Try again later.''),
      (60212, ''Too many requests. Please wait before retrying.''),
      (20429, ''Invalid verification code.''),
      (60202, ''Too many attempts. Please request a new code.'')]"

text \<open>\<^verbatim>\<open>error.code || error.status\<close>: an absent or zero code gives way to the status.\<close>

definition code_or_status :: "js_error \<Rightarrow> int option" where
  "code_or_status e =
     (case err_code e of
        None \<Rightarrow> err_status e
      | Some c \<Rightarrow> if c = 0 then err_status e else Some c)"

definition parseTwilioError :: "js_error \<Rightarrow> string" where
  "parseTwilioError e =
     (case (case code_or_status e of None \<Rightarrow> None | Some c \<Rightarrow> map_of errorMessages c) of
        Some m \<Rightarrow> m
      | None \<Rightarrow> if err_message e \<noteq> [] then err_message e else ''Failed to verify OTP'')"

text \<open>The \<^verbatim>\<open>catch\<close> block shared by the send-OTP and verify-OTP handlers.\<close>

definition otp_catch :: "js_error \<Rightarrow> outcome" where
  "otp_catch e =
     (if (case code_or_status e of None \<Rightarrow> False | Some c \<Rightarrow> c \<noteq> 0)
      then Respond (failure 400 (parseTwilioError e))
      else if js_includes (err_message e) ''not configured''
      then Respond (failure 500 ''SMS service not configured'')
      else Unhandled e)"

section \<open>Session tokens (utils/jwt.js, middleware/auth.js)\<close>

record jwt_payload =
  p_userId :: string
  p_phone :: string
  p_iat :: int
  p_exp :: int

text \<open>
  A signed token, symbolically: the secret it was signed with and the claims it carries.
\<close>

datatype jwt = Jwt string jwt_payload

text \<open>
  What the token library leaves open is a parameter: the compact serialisation of a token
  as a string, its parser, and the number of seconds an \<^verbatim>\<open>expiresIn\<close> string such as
  \<^verbatim>\<open>'7d'\<close> denotes.
\<close>

record jwt_lib =
  jwt_encode :: "jwt \<Rightarrow> string"
  jwt_decode :: "string \<Rightarrow> jwt option"
  jwt_span :: "string \<Rightarrow> int"

text \<open>
  Modelled from the spec: the signing primitive \<^verbatim>\<open>jwt.sign\<close> of the token library, which
  is not part of the sources. A token encodes the subject id, the phone, the time of issue
  and the time of expiry (in seconds), signed with the server-held secret; issuing is a
  pure function of subject, phone, current time (\<open>now\<close>, in milliseconds) and configuration.
\<close>

definition jwt_sign :: "jwt_lib \<Rightarrow> string \<Rightarrow> string \<Rightarrow> string \<Rightarrow> string \<Rightarrow> int \<Rightarrow> string" where
  "jwt_sign L uid ph secret expiresIn now =
     jwt_encode L (Jwt secret \<lparr>p_userId = uid, p_phone = ph, p_iat = now div 1000,
                               p_exp = now div 1000 + jwt_span L expiresIn\<rparr>)"

definition TokenExpiredError :: js_error where
  "TokenExpiredError = \<lparr>err_name = ''TokenExpiredError'', err_message = ''jwt expired'',
     err_code = None, err_status = None, err_errors = []\<rparr>"

definition JsonWebTokenError :: "string \<Rightarrow> js_error" where
  "JsonWebTokenError msg = \<lparr>err_name = ''JsonWebTokenError'', err_message = msg,
     err_code = None, err_status = None, err_errors = []\<rparr>"

text \<open>
  Modelled from the spec: the verification primitive \<^verbatim>\<open>jwt.verify\<close> of the token library,
  which is not part of the sources. A verified token yields the embedded claims or a
  failure reason: invalid (malformed, or a bad signature) or expired (valid signature,
  past expiry).
\<close>

definition jwt_verify :: "jwt_lib \<Rightarrow> string \<Rightarrow> string \<Rightarrow> int \<Rightarrow> js_error + jwt_payload" where
  "jwt_verify L tok secret now =
     (case jwt_decode L tok of
        None \<Rightarrow> Inl (JsonWebTokenError ''jwt malformed'')
      | Some (Jwt signed_with claims) \<Rightarrow>
          if signed_with \<noteq> secret then Inl (JsonWebTokenError ''invalid signature'')
          else if now div 1000 \<ge> p_exp claims then Inl TokenExpiredError
          else Inr claims)"

definition jwt_secret :: "env \<Rightarrow> string" where
  "jwt_secret ev = or_default (JWT_SECRET ev) ''your-secret-key-change-in-production''"

definition jwt_expires_in :: "env \<Rightarrow> string" where
  "jwt_expires_in ev = or_default (JWT_EXPIRES_IN ev) ''7d''"

definition generateToken :: "jwt_lib \<Rightarrow> env \<Rightarrow> int \<Rightarrow> string \<Rightarrow> string \<Rightarrow> string" where
  "generateToken L ev now uid ph = jwt_sign L uid ph (jwt_secret ev) (jwt_expires_in ev) now"

definition verifyToken :: "jwt_lib \<Rightarrow> env \<Rightarrow> int \<Rightarrow> string \<Rightarrow> js_error + jwt_payload" where
  "verifyToken L ev now tok = jwt_verify L tok (jwt_secret ev) now"

text \<open>\<^verbatim>\<open>s.split(' ')\<close>: the pieces between single spaces, empty pieces included.\<close>

fun split_on :: "char \<Rightarrow> string \<Rightarrow> string list" where
  "split_on c [] = [[]]"
| "split_on c (x # xs) =
     (if x = c then [] # split_on c xs
      else (case split_on c xs of
              [] \<Rightarrow> [[x]]
            | w # ws \<Rightarrow> (x # w) # ws))"

text \<open>\<^verbatim>\<open>req.user\<close>, attached by the middleware on success.\<close>

record req_user =
  userId :: string
  user_phone :: string

text \<open>
  \<^verbatim>\<open>authenticate\<close> on the value of the Authorization header (\<open>None\<close> when the header is
  missing): a 401 response, or the user attached to the request.
\<close>

definition authenticate :: "jwt_lib \<Rightarrow> env \<Rightarrow> int \<Rightarrow> string option \<Rightarrow> response + req_user" where
  "authenticate L ev now authHeader =
     (case authHeader of
        None \<Rightarrow> Inl (failure 401 ''Authorization token is required'')
      | Some h \<Rightarrow>
          if h = [] then Inl (failure 401 ''Authorization token is required'')
          else
            let parts = split_on CHR '' '' h in
            if length parts \<noteq> 2 \<or> parts ! 0 \<noteq> ''Bearer''
            then Inl (failure 401 ''Invalid authorization header format. Use: Bearer <token>'')
            else
              let tok = parts ! 1 in
              if tok = [] then Inl (failure 401 ''Token is required'')
              else
                (case verifyToken L ev now tok of
                   Inr decoded \<Rightarrow> Inr \<lparr>userId = p_userId decoded, user_phone = p_phone decoded\<rparr>
                 | Inl e \<Rightarrow>
                     if err_name e = ''TokenExpiredError''
                     then Inl (failure 401 ''Token has expired. Please login again.'')
                     else if err_name e = ''JsonWebTokenError''
                     then Inl (failure 401 ''Invalid token'')
                     else Inl (failure 401 ''Authentication failed'')))"

section \<open>The profile registry (models/User.js)\<close>

text \<open>
  A stored profile: the server-assigned id, the phone (declared \<^verbatim>\<open>unique\<close> by the schema),
  the name, and the remaining attributes by key.
\<close>

record user_doc =
  u_id :: string
  u_phone :: string
  u_name :: string
  u_fields :: jsobject

type_synonym db = "user_doc list"

definition toObject :: "user_doc \<Rightarrow> jsobject" where
  "toObject u = (''_id'', JStr (u_id u)) # (''phone'', JStr (u_phone u))
                  # (''name'', JStr (u_name u)) # u_fields u"

text \<open>
  Modelled from the spec: the document store behind the \<^verbatim>\<open>User\<close> model, which is not part
  of the sources. \<open>findOne\<close> finds a profile by phone. \<open>save\<close> creates a profile: the phone
  is the unique natural key, so a write of a phone that is already stored is refused with
  the store's duplicate-key error (code 11000); a document that the schema's validation
  rejects (messages \<open>validate u\<close>, taken as a parameter) is refused with a validation error
  before anything is written.
\<close>

definition findOne :: "db \<Rightarrow> string \<Rightarrow> user_doc option" where
  "findOne d ph = find (\<lambda>u. u_phone u = ph) d"

definition duplicate_key_error :: js_error where
  "duplicate_key_error = \<lparr>err_name = ''MongoServerError'',
     err_message = ''E11000 duplicate key error'', err_code = Some 11000, err_status = None,
     err_errors = []\<rparr>"

definition save :: "(user_doc \<Rightarrow> string list) \<Rightarrow> user_doc \<Rightarrow> db \<Rightarrow> js_error + db" where
  "save validate u d =
     (if validate u \<noteq> []
      then Inl \<lparr>err_name = ''ValidationError'', err_message = ''User validation failed'',
                err_code = None, err_status = None, err_errors = validate u\<rparr>
      else if list_ex (\<lambda>x. u_phone x = u_phone u) d then Inl duplicate_key_error
      else Inr (d @ [u]))"

section \<open>The authentication routes (routes/auth.js)\<close>

subsection \<open>POST /api/auth/send-otp\<close>

definition send_otp_handler :: "env \<Rightarrow> provider \<Rightarrow> string \<Rightarrow> outcome" where
  "send_otp_handler ev prov ph =
     (case sendOTP ev prov ph of
        Inr result \<Rightarrow>
          if v_status result = ''pending''
          then Respond \<lparr>status = 200, success = True, message = Some ''OTP sent successfully'',
                        token = None, isNewUser = None, user = None\<rparr>
          else Respond (failure 500 ''Failed to send OTP. Please try again.'')
      | Inl e \<Rightarrow> otp_catch e)"

text \<open>
  The route: \<^verbatim>\<open>normalizePhone\<close>, the validation rules, the rate limiter, the handler. It
  runs at time \<open>now\<close> on the limiter's store and returns the new store.
\<close>

definition send_otp :: "env \<Rightarrow> provider \<Rightarrow> int \<Rightarrow> string option \<Rightarrow> rate_store \<Rightarrow> rate_store \<times> outcome" where
  "send_otp ev prov now phone0 store =
     (case sendOtpValidation (normalizePhone phone0) of
        Inl msg \<Rightarrow> (store, Respond (failure 400 msg))
      | Inr ph \<Rightarrow>
          (case otpRateLimiter now (Some ph) store of
             (store', Deny r) \<Rightarrow> (store', Respond r)
           | (store', Next) \<Rightarrow> (store', send_otp_handler ev prov ph)))"

subsection \<open>POST /api/auth/verify-otp\<close>

definition verify_otp_handler :: "jwt_lib \<Rightarrow> env \<Rightarrow> provider \<Rightarrow> int \<Rightarrow> string \<Rightarrow> string \<Rightarrow> db \<Rightarrow> db \<times> outcome" where
  "verify_otp_handler L ev prov now ph otp d =
     (case verifyOTP ev prov ph otp of
        Inl e \<Rightarrow> (d, otp_catch e)
      | Inr result \<Rightarrow>
          if \<not> c_valid result \<or> c_status result \<noteq> ''approved''
          then (d, Respond (failure 400 ''Invalid OTP. Please try again.''))
          else
            (case findOne d ph of
               Some u \<Rightarrow>
                 (d, Respond \<lparr>status = 200, success = True, message = None,
                              token = Some (generateToken L ev now (u_id u) ph),
                              isNewUser = Some False, user = None\<rparr>)
             | None \<Rightarrow>
                 (d, Respond \<lparr>status = 200, success = True, message = None, token = None,
                              isNewUser = Some True, user = None\<rparr>)))"

definition verify_otp :: "jwt_lib \<Rightarrow> env \<Rightarrow> provider \<Rightarrow> int \<Rightarrow> string option \<Rightarrow> string option \<Rightarrow> db \<Rightarrow> db \<times> outcome" where
  "verify_otp L ev prov now phone0 otp0 d =
     (case phoneValidation phone0 of
        Inl msg \<Rightarrow> (d, Respond (failure 400 msg))
      | Inr ph \<Rightarrow>
          (case otpValidation otp0 of
             Inl msg \<Rightarrow> (d, Respond (failure 400 msg))
           | Inr otp \<Rightarrow> verify_otp_handler L ev prov now ph otp d))"

subsection \<open>POST /api/auth/register-user\<close>

definition optional_keys :: "string list" where
  "optional_keys = [''gender'', ''aadhaar'', ''fatherName'', ''motherName'',
     ''relationshipWithHead'', ''gothra'', ''education'', ''upanayana'', ''maritalStatus'',
     ''occupation'', ''occupationDetails'', ''annualIncome'', ''taxPayer'', ''houseType'',
     ''residenceAddress'', ''familyHouse'', ''rationCardType'', ''specialPerson'']"

text \<open>
  \<^verbatim>\<open>new User({...})\<close> with the fresh id \<open>newid\<close>: the attributes the body supplies, the
  date of birth and the number of children converted when truthy and \<^verbatim>\<open>null\<close> otherwise,
  and the profile marked complete.
\<close>

definition new_User :: "string \<Rightarrow> string \<Rightarrow> string \<Rightarrow> jsobject \<Rightarrow> user_doc" where
  "new_User newid ph nm body =
     \<lparr>u_id = newid, u_phone = ph, u_name = nm,
      u_fields =
        List.map_filter (\<lambda>k. map_option (Pair k) (map_of body k)) optional_keys
        @ [(''dateOfBirth'', (case map_of body ''dateOfBirth'' of
                                Some v \<Rightarrow> if truthy v then JDate v else JNull
                              | None \<Rightarrow> JNull)),
           (''numberOfChildren'', (case map_of body ''numberOfChildren'' of
                                     Some v \<Rightarrow> if truthy v then JParseInt v else JNull
                                   | None \<Rightarrow> JNull)),
           (''isProfileComplete'', JBool True)]\<rparr>"

definition already_exists :: response where
  "already_exists = failure 400 ''User with this phone number already exists''"

text \<open>\<^verbatim>\<open>messages.join(', ')\<close>.\<close>

fun join_comma :: "string list \<Rightarrow> string" where
  "join_comma [] = []"
| "join_comma [m] = m"
| "join_comma (m # ms) = m @ '', '' @ join_comma ms"

text \<open>The handler's first store access: the duplicate pre-check.\<close>

definition register_check :: "string \<Rightarrow> db \<Rightarrow> response option" where
  "register_check ph d = (case findOne d ph of Some _ \<Rightarrow> Some already_exists | None \<Rightarrow> None)"

text \<open>The handler's \<^verbatim>\<open>catch\<close> block.\<close>

definition register_catch :: "js_error \<Rightarrow> outcome" where
  "register_catch e =
     (if err_code e = Some 11000 then Respond already_exists
      else if err_name e = ''ValidationError''
      then Respond (failure 400 (join_comma (err_errors e)))
      else Unhandled e)"

text \<open>The handler's second store access: the write, then the token and the response.\<close>

definition register_write :: "jwt_lib \<Rightarrow> env \<Rightarrow> (user_doc \<Rightarrow> string list) \<Rightarrow> int \<Rightarrow> string \<Rightarrow> string \<Rightarrow> string \<Rightarrow> jsobject \<Rightarrow> db \<Rightarrow> db \<times> outcome" where
  "register_write L ev validate now newid ph nm body d =
     (case save validate (new_User newid ph nm body) d of
        Inl e \<Rightarrow> (d, register_catch e)
      | Inr d' \<Rightarrow>
          (d', Respond \<lparr>status = 201, success = True, message = None,
                        token = Some (generateToken L ev now newid ph),
                        isNewUser = None, user = None\<rparr>))"

text \<open>The handler when nothing else touches the store between its two accesses.\<close>

definition register_handler :: "jwt_lib \<Rightarrow> env \<Rightarrow> (user_doc \<Rightarrow> string list) \<Rightarrow> int \<Rightarrow> string \<Rightarrow> string \<Rightarrow> string \<Rightarrow> jsobject \<Rightarrow> db \<Rightarrow> db \<times> outcome" where
  "register_handler L ev validate now newid ph nm body d =
     (case register_check ph d of
        Some r \<Rightarrow> (d, Respond r)
      | None \<Rightarrow> register_write L ev validate now newid ph nm body d)"

definition register_user :: "jwt_lib \<Rightarrow> env \<Rightarrow> (user_doc \<Rightarrow> string list) \<Rightarrow> int \<Rightarrow> string \<Rightarrow> string option \<Rightarrow> string option \<Rightarrow> jsobject \<Rightarrow> db \<Rightarrow> db \<times> outcome" where
  "register_user L ev validate now newid phone0 name0 body d =
     (case phoneValidation (normalizePhone phone0) of
        Inl msg \<Rightarrow> (d, Respond (failure 400 msg))
      | Inr ph \<Rightarrow>
          (case nameValidation name0 of
             Inl msg \<Rightarrow> (d, Respond (failure 400 msg))
           | Inr nm \<Rightarrow> register_handler L ev validate now newid ph nm body d))"

text \<open>
  Two register calls running concurrently. Each call touches the store twice, at its
  pre-check and at its write, and the store serves one access at a time; a schedule says
  whose access comes next (\<open>True\<close>: the first call, \<open>False\<close>: the second). A call that has
  answered takes no further step.
\<close>

record register_call =
  r_now :: int
  r_newid :: string
  r_phone :: string
  r_name :: string
  r_body :: jsobject

datatype progress = AtCheck | AtWrite | Answered outcome

definition register_step :: "jwt_lib \<Rightarrow> env \<Rightarrow> (user_doc \<Rightarrow> string list) \<Rightarrow> register_call \<Rightarrow> progress \<Rightarrow> db \<Rightarrow> (progress \<times> db) option" where
  "register_step L ev validate c pc d =
     (case pc of
        AtCheck \<Rightarrow>
          (case register_check (r_phone c) d of
             Some r \<Rightarrow> Some (Answered (Respond r), d)
           | None \<Rightarrow> Some (AtWrite, d))
      | AtWrite \<Rightarrow>
          (case register_write L ev validate (r_now c) (r_newid c) (r_phone c) (r_name c)
                  (r_body c) d of
             (d', out) \<Rightarrow> Some (Answered out, d'))
      | Answered _ \<Rightarrow> None)"

fun run_register :: "jwt_lib \<Rightarrow> env \<Rightarrow> (user_doc \<Rightarrow> string list) \<Rightarrow> register_call \<Rightarrow> register_call \<Rightarrow> bool list \<Rightarrow> progress \<times> progress \<times> db \<Rightarrow> (progress \<times> progress \<times> db) option" where
  "run_register L ev validate a b [] s = Some s"
| "run_register L ev validate a b (first # sched) (pa, pb, d) =
     (if first
      then (case register_step L ev validate a pa d of
              None \<Rightarrow> None
            | Some (pa', d') \<Rightarrow> run_register L ev validate a b sched (pa', pb, d'))
      else (case register_step L ev validate b pb d of
              None \<Rightarrow> None
            | Some (pb', d') \<Rightarrow> run_register L ev validate a b sched (pa, pb', d')))"

subsection \<open>PUT /api/auth/update-profile\<close>

text \<open>
  The update data: a copy of the body without the fields that must not change. The keys
  of a parsed body are distinct, so the number of keys is the length of the list.
\<close>

definition strip_update :: "jsobject \<Rightarrow> jsobject" where
  "strip_update body =
     (let updateData = body;
          updateData = (if truthy_prop (map_of updateData ''phone'')
                        then AList.delete ''phone'' updateData else updateData);
          updateData = (if truthy_prop (map_of updateData ''_id'')
                        then AList.delete ''_id'' updateData else updateData);
          updateData = AList.delete ''__v'' updateData;
          updateData = AList.delete ''createdAt'' updateData;
          updateData = AList.delete ''updatedAt'' updateData;
          updateData = AList.delete ''joinedDate'' updateData
      in updateData)"

definition parse_dateOfBirth :: "jsobject \<Rightarrow> jsobject" where
  "parse_dateOfBirth updateData =
     (case map_of updateData ''dateOfBirth'' of
        Some (JStr s) \<Rightarrow>
          if s \<noteq> [] then AList.update ''dateOfBirth'' (JDate (JStr s)) updateData
          else updateData
      | _ \<Rightarrow> updateData)"

definition update_catch :: "js_error \<Rightarrow> outcome" where
  "update_catch e =
     (if err_name e = ''ValidationError''
      then Respond (failure 400 (''Validation error: '' @ join_comma (err_errors e)))
      else if err_name e = ''CastError'' then Respond (failure 400 ''Invalid user ID'')
      else Unhandled e)"

text \<open>
  The handler, for the user id that \<^verbatim>\<open>authenticate\<close> attached. The store's
  \<^verbatim>\<open>findByIdAndUpdate(userId, {$set: updateData}, ...)\<close> is a parameter: it fails, or
  returns the new store with the updated profile, if there is one with that id.
\<close>

definition update_profile_handler :: "(string \<Rightarrow> jsobject \<Rightarrow> db \<Rightarrow> js_error + db \<times> user_doc option) \<Rightarrow> string \<Rightarrow> jsobject \<Rightarrow> db \<Rightarrow> db \<times> outcome" where
  "update_profile_handler findByIdAndUpdate uid body d =
     (let updateData = strip_update body in
      if length (map fst updateData) = 0
      then (d, Respond (failure 400 ''No fields to update''))
      else
        (case findByIdAndUpdate uid (parse_dateOfBirth updateData) d of
           Inl e \<Rightarrow> (d, update_catch e)
         | Inr (d', None) \<Rightarrow> (d', Respond (failure 404 ''User not found''))
         | Inr (d', Some u) \<Rightarrow>
             (d', Respond \<lparr>status = 200, success = True, message = None, token = None,
                           isNewUser = None, user = Some (toObject u)\<rparr>)))"

definition update_profile :: "jwt_lib \<Rightarrow> env \<Rightarrow> (string \<Rightarrow> jsobject \<Rightarrow> db \<Rightarrow> js_error + db \<times> user_doc option) \<Rightarrow> int \<Rightarrow> string option \<Rightarrow> jsobject \<Rightarrow> db \<Rightarrow> db \<times> outcome" where
  "update_profile L ev findByIdAndUpdate now authHeader body d =
     (case authenticate L ev now authHeader of
        Inl r \<Rightarrow> (d, Respond r)
      | Inr u \<Rightarrow> update_profile_handler findByIdAndUpdate (userId u) body d)"

section \<open>Runs of the limiter and of the send-OTP route\<close>

text \<open>
  The two operations on the limiter's store: a check by the middleware and a sweep, each at
  its own time.
\<close>

datatype limiter_op = Check int "string option" | Sweep int

fun op_time :: "limiter_op \<Rightarrow> int" where
  "op_time (Check now _) = now"
| "op_time (Sweep now) = now"

fun apply_op :: "limiter_op \<Rightarrow> rate_store \<Rightarrow> rate_store" where
  "apply_op (Check now phone0) store = fst (otpRateLimiter now phone0 store)"
| "apply_op (Sweep now) store = cleanupExpiredEntries now store"

fun run_ops :: "limiter_op list \<Rightarrow> rate_store \<Rightarrow> rate_store" where
  "run_ops [] store = store"
| "run_ops (x # xs) store = run_ops xs (apply_op x store)"

definition counts_positive :: "rate_store \<Rightarrow> bool" where
  "counts_positive store = (\<forall>k e. store k = Some e \<longrightarrow> 1 \<le> count e)"

text \<open>The send-OTP route called with the same body at each of the given times.\<close>

fun send_otp_seq :: "env \<Rightarrow> provider \<Rightarrow> string option \<Rightarrow> int list \<Rightarrow> rate_store \<Rightarrow> outcome list" where
  "send_otp_seq ev prov phone0 [] store = []"
| "send_otp_seq ev prov phone0 (t # ts) store =
     (case send_otp ev prov t phone0 store of
        (store', out) \<Rightarrow> out # send_otp_seq ev prov phone0 ts store')"

definition outcome_status :: "outcome \<Rightarrow> nat option" where
  "outcome_status out = (case out of Respond r \<Rightarrow> Some (status r) | Unhandled _ \<Rightarrow> None)"

section \<open>Concrete configurations\<close>

text \<open>Test mode with the verification service configured, and test mode without it.\<close>

definition test_env :: env where
  "test_env = \<lparr>TWILIO_ACCOUNT_SID = None, TWILIO_AUTH_TOKEN = None,
     TWILIO_VERIFY_SERVICE_SID = Some ''VA00'', SMS_MODE = Some ''test'',
     JWT_SECRET = Some ''s3cret'', JWT_EXPIRES_IN = None\<rparr>"

definition test_env_no_sid :: env where
  "test_env_no_sid = test_env\<lparr>TWILIO_VERIFY_SERVICE_SID := None\<rparr>"

text \<open>A provider whose client is built but rejects every call.\<close>

definition offline_provider :: provider where
  "offline_provider =
     \<lparr>twilio = (\<lambda>_ _. None),
      verifications_create = (\<lambda>_ _ _. Inl (Error ''offline'')),
      verificationChecks_create = (\<lambda>_ _ _. Inl (Error ''offline''))\<rparr>"

text \<open>
  A token library with the smallest serialisation that will do: one token has a text, every
  other text is malformed; \<^verbatim>\<open>'7d'\<close> is seven days.
\<close>

definition demo_token :: jwt where
  "demo_token = Jwt ''s3cret'' \<lparr>p_userId = ''64a1'', p_phone = ''+919876543210'', p_iat = 5,
     p_exp = 604805\<rparr>"

definition demo_lib :: jwt_lib where
  "demo_lib =
     \<lparr>jwt_encode = (\<lambda>x. if x = demo_token then ''header.payload.signature'' else ''other''),
      jwt_decode = (\<lambda>s. if s = ''header.payload.signature'' then Some demo_token else None),
      jwt_span = (\<lambda>s. if s = ''7d'' then 604800 else 0)\<rparr>"













text \<open>Two register calls for the same phone, and a stored profile with that phone.\<close>

definition call_a :: register_call where
  "call_a = \<lparr>r_now = 1000, r_newid = ''64a1'', r_phone = ''+919876543210'', r_name = ''Asha'',
     r_body = [(''gender'', JStr ''Female'')]\<rparr>"

definition call_b :: register_call where
  "call_b = \<lparr>r_now = 1001, r_newid = ''64b2'', r_phone = ''+919876543210'', r_name = ''Bala'',
     r_body = []\<rparr>"

definition asha :: user_doc where
  "asha = \<lparr>u_id = ''64a1'', u_phone = ''+919876543210'', u_name = ''Asha'', u_fields = []\<rparr>"

section \<open>Notions for the register race\<close>

definition taken :: "string \<Rightarrow> db \<Rightarrow> bool" where
  "taken ph d = list_ex (\<lambda>x. u_phone x = ph) d"

text \<open>The document a call writes, and the 201 response that carries its token.\<close>

definition call_doc :: "register_call \<Rightarrow> user_doc" where
  "call_doc c = new_User (r_newid c) (r_phone c) (r_name c) (r_body c)"

definition created :: "jwt_lib \<Rightarrow> env \<Rightarrow> register_call \<Rightarrow> outcome" where
  "created L ev c = Respond \<lparr>status = 201, success = True, message = None,
     token = Some (generateToken L ev (r_now c) (r_newid c) (r_phone c)),
     isNewUser = None, user = None\<rparr>"

text \<open>
  What holds of a call throughout a run: once it has answered, its phone is stored, and
  the answer is the already-exists response or its own 201.
\<close>

definition answered_ok :: "jwt_lib \<Rightarrow> env \<Rightarrow> register_call \<Rightarrow> progress \<Rightarrow> db \<Rightarrow> bool" where
  "answered_ok L ev c pc d =
     (case pc of
        Answered out \<Rightarrow>
          taken (r_phone c) d \<and> (out = Respond already_exists \<or> out = created L ev c)
      | _ \<Rightarrow> True)"

section \<open>Phone normalisation: properties\<close>

lemma filter_keep_digits:
  "list_all is_digit d \<Longrightarrow> filter (\<lambda>c. is_digit c \<or> c = CHR ''+'') d = d"
  by (induction d) auto

lemma normalizePhone_variant:
  assumes d: "mobile10 d"
    and s: "filter (\<lambda>c. is_digit c \<or> c = CHR ''+'') s = d
          \<or> filter (\<lambda>c. is_digit c \<or> c = CHR ''+'') s = ''91'' @ d
          \<or> filter (\<lambda>c. is_digit c \<or> c = CHR ''+'') s = ''+91'' @ d"
  shows "normalizePhone (Some s) = Some (''+91'' @ d)"
proof -
  from d obtain c cs where dc: "d = c # cs" "c \<in> set ''6789''" "length cs = 9"
    by (auto simp: mobile10_def split: list.splits)
  have ne: "s \<noteq> []" using s dc by auto
  from s show ?thesis
    using dc ne by (auto simp: normalizePhone_def startsWith_def Let_def)
qed

lemma normalizePhone_idem: "normalizePhone (normalizePhone p) = normalizePhone p"
proof (cases p)
  case None
  then show ?thesis by (simp add: normalizePhone_def)
next
  case (Some p0)
  let ?k = "\<lambda>c. is_digit c \<or> c = CHR ''+''"
  let ?ph = "filter ?k p0"
  have k: "filter ?k ?ph = ?ph" by simp
  have kp: "filter ?k (''+'' @ ?ph) = ''+'' @ ?ph" by simp
  have kp91: "filter ?k (''+91'' @ ?ph) = ''+91'' @ ?ph" by (simp add: is_digit_def)
  show ?thesis
    using Some k kp kp91
    by (auto simp: normalizePhone_def startsWith_def Let_def is_digit_def)
qed

text \<open>
  C7. Normalising \<open>9876543210\<close>, \<open>919876543210\<close> and \<open>+919876543210\<close> yields
  \<open>+919876543210\<close> each time. More generally, take any ten-digit mobile number \<open>d\<close> (first
  digit 6 to 9) and any way \<open>s\<close> of writing it, bare, with 91 or with +91 in front, with
  any separators that are neither digits nor plus signs: the normalised form of \<open>s\<close> is
  \<open>+91\<close> followed by \<open>d\<close>, which has the target format. Normalising a normalised number
  changes nothing.
\<close>

theorem normalizePhone_canonical:
  "normalizePhone (Some ''9876543210'') = Some ''+919876543210'' \<and>
   normalizePhone (Some ''919876543210'') = Some ''+919876543210'' \<and>
   normalizePhone (Some ''+919876543210'') = Some ''+919876543210'' \<and>
   (\<forall>d s. mobile10 d \<and>
           (filter (\<lambda>c. is_digit c \<or> c = CHR ''+'') s = d
            \<or> filter (\<lambda>c. is_digit c \<or> c = CHR ''+'') s = ''91'' @ d
            \<or> filter (\<lambda>c. is_digit c \<or> c = CHR ''+'') s = ''+91'' @ d) \<longrightarrow>
      (\<exists>out. normalizePhone (Some s) = Some out \<and> out = ''+91'' @ d \<and> matches_plus91 out)) \<and>
   (\<forall>p. normalizePhone (normalizePhone p) = normalizePhone p)"
proof -
  have ex: "normalizePhone (Some ''9876543210'') = Some ''+919876543210''"
    "normalizePhone (Some ''919876543210'') = Some ''+919876543210''"
    "normalizePhone (Some ''+919876543210'') = Some ''+919876543210''"
    by (simp_all add: normalizePhone_def is_digit_def startsWith_def)
  have fmt: "matches_plus91 (''+91'' @ d)" if "mobile10 d" for d
    using that by (simp add: matches_plus91_def startsWith_def)
  show ?thesis
    using ex normalizePhone_variant fmt normalizePhone_idem by blast
qed

theorem normalizePhone_canonical_witness:
  "mobile10 ''9876543210'' \<and>
   normalizePhone (Some ''(+91) 98765-43210'') = Some ''+919876543210'' \<and>
   normalizePhone (Some ''91 98765 43210'') = Some ''+919876543210'' \<and>
   normalizePhone (Some ''98765 43210'') = Some ''+919876543210'' \<and>
   matches_plus91 ''+919876543210''"
proof -
  have m: "mobile10 ''9876543210''" by (simp add: mobile10_def is_digit_def)
  have f1: "filter (\<lambda>c. is_digit c \<or> c = CHR ''+'') ''(+91) 98765-43210'' = ''+91'' @ ''9876543210''"
    and f2: "filter (\<lambda>c. is_digit c \<or> c = CHR ''+'') ''91 98765 43210'' = ''91'' @ ''9876543210''"
    and f3: "filter (\<lambda>c. is_digit c \<or> c = CHR ''+'') ''98765 43210'' = ''9876543210''"
    by (simp_all add: is_digit_def)
  from normalizePhone_canonical
  have gen: "\<And>d s. mobile10 d \<and>
           (filter (\<lambda>c. is_digit c \<or> c = CHR ''+'') s = d
            \<or> filter (\<lambda>c. is_digit c \<or> c = CHR ''+'') s = ''91'' @ d
            \<or> filter (\<lambda>c. is_digit c \<or> c = CHR ''+'') s = ''+91'' @ d) \<Longrightarrow>
      normalizePhone (Some s) = Some (''+91'' @ d) \<and> matches_plus91 (''+91'' @ d)"
    by blast
  from gen [of "''9876543210''" "''(+91) 98765-43210''"] gen [of "''9876543210''" "''91 98765 43210''"]
    gen [of "''9876543210''" "''98765 43210''"] m f1 f2 f3
  show ?thesis by simp
qed

section \<open>The rate limiter: properties\<close>

lemma entry_block_eq:
  "e\<lparr>count := c, blocked := b, resetTime := r\<rparr> = \<lparr>count = c, resetTime = r, blocked = b\<rparr>"
  by (cases e) simp

lemma remainingTime_int: "remainingTime e now = - ((now - resetTime e) div 1000)"
  unfolding remainingTime_def
  using ceiling_divide_eq_div [of "resetTime e - now" 1000] by simp

text \<open>
  C1. One check of a non-empty phone at time \<open>now\<close>; the identifier is the phone's digits.
  If the store has no entry for the identifier, or the entry's \<open>resetTime\<close> has passed, a
  fresh entry (count 1, window of 60 seconds, not blocked) is stored and the check allows.
  Otherwise, if the entry is blocked, the store is left as it is and the check denies with
  status 429 and the remaining seconds, the ceiling of \<open>(resetTime - now) / 1000\<close>.
  Otherwise the count is incremented: if it now exceeds 3, the entry is stored blocked
  with a window of 300 seconds and the check denies with status 429; else the entry is
  stored with the incremented count and the check allows.
\<close>

theorem otpRateLimiter_policy:
  assumes "p \<noteq> []"
  shows
  "(store (filter is_digit p) = None \<longrightarrow>
      otpRateLimiter now (Some p) store =
        (store(filter is_digit p \<mapsto> \<lparr>count = 1, resetTime = now + 60000, blocked = False\<rparr>),
         Next)) \<and>
   (\<forall>e. store (filter is_digit p) = Some e \<and> resetTime e < now \<longrightarrow>
      otpRateLimiter now (Some p) store =
        (store(filter is_digit p \<mapsto> \<lparr>count = 1, resetTime = now + 60000, blocked = False\<rparr>),
         Next)) \<and>
   (\<forall>e. store (filter is_digit p) = Some e \<and> now \<le> resetTime e \<and> blocked e \<longrightarrow>
      otpRateLimiter now (Some p) store =
        (store, Deny (failure 429 (''Too many requests. Please try again in ''
            @ show_int \<lceil>real_of_int (resetTime e - now) / 1000\<rceil> @ '' seconds.'')))) \<and>
   (\<forall>e. store (filter is_digit p) = Some e \<and> now \<le> resetTime e \<and> \<not> blocked e
         \<and> 3 < count e + 1 \<longrightarrow>
      otpRateLimiter now (Some p) store =
        (store(filter is_digit p \<mapsto>
           \<lparr>count = count e + 1, resetTime = now + 300000, blocked = True\<rparr>),
         Deny (failure 429 ''Too many OTP requests. Please try again in 5 minutes.''))) \<and>
   (\<forall>e. store (filter is_digit p) = Some e \<and> now \<le> resetTime e \<and> \<not> blocked e
         \<and> count e + 1 \<le> 3 \<longrightarrow>
      otpRateLimiter now (Some p) store =
        (store(filter is_digit p \<mapsto> e\<lparr>count := count e + 1\<rparr>), Next))"
  using assms
  by (simp add: otpRateLimiter_def Let_def maxAttempts_def windowMs_def blockDurationMs_def
        remainingTime_def entry_block_eq)

theorem otpRateLimiter_policy_witness:
  "otpRateLimiter 1000 (Some ''+919876543210'') Map.empty =
     ([''919876543210'' \<mapsto> \<lparr>count = 1, resetTime = 61000, blocked = False\<rparr>], Next) \<and>
   otpRateLimiter 70000 (Some ''+919876543210'')
       [''919876543210'' \<mapsto> \<lparr>count = 2, resetTime = 61000, blocked = False\<rparr>] =
     ([''919876543210'' \<mapsto> \<lparr>count = 1, resetTime = 130000, blocked = False\<rparr>], Next) \<and>
   otpRateLimiter 2500 (Some ''+919876543210'')
       [''919876543210'' \<mapsto> \<lparr>count = 4, resetTime = 5000, blocked = True\<rparr>] =
     ([''919876543210'' \<mapsto> \<lparr>count = 4, resetTime = 5000, blocked = True\<rparr>],
      Deny (failure 429 ''Too many requests. Please try again in 3 seconds.'')) \<and>
   otpRateLimiter 3000 (Some ''+919876543210'')
       [''919876543210'' \<mapsto> \<lparr>count = 3, resetTime = 61000, blocked = False\<rparr>] =
     ([''919876543210'' \<mapsto> \<lparr>count = 4, resetTime = 303000, blocked = True\<rparr>],
      Deny (failure 429 ''Too many OTP requests. Please try again in 5 minutes.'')) \<and>
   otpRateLimiter 2000 (Some ''+919876543210'')
       [''919876543210'' \<mapsto> \<lparr>count = 1, resetTime = 61000, blocked = False\<rparr>] =
     ([''919876543210'' \<mapsto> \<lparr>count = 2, resetTime = 61000, blocked = False\<rparr>], Next)"
  using otpRateLimiter_policy [of "''+919876543210''" Map.empty 1000]
    otpRateLimiter_policy [of "''+919876543210''"
      "[''919876543210'' \<mapsto> \<lparr>count = 2, resetTime = 61000, blocked = False\<rparr>]" 70000]
    otpRateLimiter_policy [of "''+919876543210''"
      "[''919876543210'' \<mapsto> \<lparr>count = 4, resetTime = 5000, blocked = True\<rparr>]" 2500]
    otpRateLimiter_policy [of "''+919876543210''"
      "[''919876543210'' \<mapsto> \<lparr>count = 3, resetTime = 61000, blocked = False\<rparr>]" 3000]
    otpRateLimiter_policy [of "''+919876543210''"
      "[''919876543210'' \<mapsto> \<lparr>count = 1, resetTime = 61000, blocked = False\<rparr>]" 2000]
  by (simp add: is_digit_def show_int_def show_nat.simps digit_char_def)

lemma blocked_entry_step:
  assumes "store k = Some e" "blocked e"
  shows "apply_op x store k = Some e \<or>
         (resetTime e < op_time x \<and>
            (apply_op x store k = None \<or>
             apply_op x store k
               = Some \<lparr>count = 1, resetTime = op_time x + 60000, blocked = False\<rparr>))"
proof (cases x)
  case (Check now phone0)
  show ?thesis
    using assms unfolding Check
    by (auto simp: otpRateLimiter_def Let_def windowMs_def split: option.splits)
next
  case (Sweep now)
  show ?thesis using assms unfolding Sweep by (auto simp: cleanupExpiredEntries_def)
qed

lemma limiter_positive:
  assumes cp: "counts_positive store" and h: "fst (otpRateLimiter now phone0 store) k = Some e"
  shows "1 \<le> count e"
proof (cases "\<exists>p. phone0 = Some p \<and> p \<noteq> []")
  case False
  then have "fst (otpRateLimiter now phone0 store) = store"
    by (auto simp: otpRateLimiter_def split: option.splits)
  with cp h show ?thesis by (simp add: counts_positive_def)
next
  case True
  then obtain p where p: "phone0 = Some p" "p \<noteq> []" by blast
  show ?thesis
  proof (cases "k = filter is_digit p")
    case False
    then have "fst (otpRateLimiter now phone0 store) k = store k"
      using p by (auto simp: otpRateLimiter_def Let_def split: option.splits)
    with cp h show ?thesis by (simp add: counts_positive_def)
  next
    case k: True
    show ?thesis
    proof (cases "store k")
      case None
      then show ?thesis using h p k by (auto simp: otpRateLimiter_def Let_def)
    next
      case (Some e0)
      with cp have "1 \<le> count e0" by (simp add: counts_positive_def)
      then show ?thesis using h p k Some
        by (auto simp: otpRateLimiter_def Let_def split: if_splits)
    qed
  qed
qed

lemma apply_op_positive: "counts_positive store \<Longrightarrow> counts_positive (apply_op x store)"
proof (cases x)
  case (Check now phone0)
  assume cp: "counts_positive store"
  show ?thesis
    unfolding Check counts_positive_def using limiter_positive [OF cp] by auto
next
  case (Sweep now)
  assume cp: "counts_positive store"
  show ?thesis using cp unfolding Sweep counts_positive_def
    by (auto simp: cleanupExpiredEntries_def split: option.splits if_splits)
qed

lemma run_ops_positive: "counts_positive store \<Longrightarrow> counts_positive (run_ops xs store)"
  by (induction xs arbitrary: store) (auto intro: apply_op_positive)

text \<open>
  C9. Starting from the empty store, after any sequence of checks and sweeps every stored
  entry has a count of at least 1. And for any store and any single check or sweep: an
  entry that is blocked is still there unchanged afterwards (same count, still blocked,
  same \<open>resetTime\<close>), unless the operation runs after the entry's \<open>resetTime\<close>, in which
  case the entry may also have been deleted or replaced by a fresh unblocked entry of
  count 1. So no operation running within the block window unblocks an identifier.
\<close>

theorem limiter_invariants:
  "counts_positive (run_ops xs Map.empty) \<and>
   (\<forall>store x k e. store k = Some e \<and> blocked e \<longrightarrow>
      apply_op x store k = Some e \<or>
      (resetTime e < op_time x \<and>
         (apply_op x store k = None \<or>
          apply_op x store k
            = Some \<lparr>count = 1, resetTime = op_time x + 60000, blocked = False\<rparr>)))"
proof -
  have "counts_positive Map.empty" by (simp add: counts_positive_def)
  then have "counts_positive (run_ops xs Map.empty)" by (rule run_ops_positive)
  then show ?thesis using blocked_entry_step by blast
qed

theorem limiter_invariants_witness:
  "run_ops [Check 0 (Some ''9876543210''), Check 1000 (Some ''9876543210''),
            Check 2000 (Some ''9876543210''), Check 3000 (Some ''98765-43210''),
            Sweep 4000] Map.empty ''9876543210''
     = Some \<lparr>count = 4, resetTime = 303000, blocked = True\<rparr> \<and>
   (1::int) \<le> 4 \<and>
   apply_op (Check 5000 (Some ''9876543210''))
      [''9876543210'' \<mapsto> \<lparr>count = 4, resetTime = 303000, blocked = True\<rparr>] ''9876543210''
     = Some \<lparr>count = 4, resetTime = 303000, blocked = True\<rparr> \<and>
   apply_op (Sweep 303000)
      [''9876543210'' \<mapsto> \<lparr>count = 4, resetTime = 303000, blocked = True\<rparr>] ''9876543210''
     = Some \<lparr>count = 4, resetTime = 303000, blocked = True\<rparr>"
proof -
  let ?ops = "[Check 0 (Some ''9876543210''), Check 1000 (Some ''9876543210''),
            Check 2000 (Some ''9876543210''), Check 3000 (Some ''98765-43210''),
            Sweep 4000]"
  let ?e = "\<lparr>count = 4, resetTime = 303000, blocked = True\<rparr>"
  have run: "run_ops ?ops Map.empty ''9876543210'' = Some ?e"
    by (simp add: otpRateLimiter_def cleanupExpiredEntries_def Let_def is_digit_def
          maxAttempts_def windowMs_def blockDurationMs_def)
  from limiter_invariants [of ?ops] have pos: "counts_positive (run_ops ?ops Map.empty)"
    and step: "\<And>store x k e. store k = Some e \<and> blocked e \<Longrightarrow>
      apply_op x store k = Some e \<or>
      (resetTime e < op_time x \<and>
         (apply_op x store k = None \<or>
          apply_op x store k
            = Some \<lparr>count = 1, resetTime = op_time x + 60000, blocked = False\<rparr>))"
    by blast+
  from pos run have c: "1 \<le> count ?e" unfolding counts_positive_def by blast
  from step [of "[''9876543210'' \<mapsto> ?e]" "''9876543210''" ?e "Check 5000 (Some ''9876543210'')"]
  have s1: "apply_op (Check 5000 (Some ''9876543210'')) [''9876543210'' \<mapsto> ?e] ''9876543210''
              = Some ?e" by simp
  from step [of "[''9876543210'' \<mapsto> ?e]" "''9876543210''" ?e "Sweep 303000"]
  have s2: "apply_op (Sweep 303000) [''9876543210'' \<mapsto> ?e] ''9876543210'' = Some ?e" by simp
  from run c s1 s2 show ?thesis by simp
qed

section \<open>The send-OTP route: properties\<close>

lemma sendOtpValidation_nonempty: "sendOtpValidation x = Inr ph \<Longrightarrow> ph \<noteq> []"
  by (auto simp: sendOtpValidation_def Let_def split: if_splits)

lemma send_otp_valid:
  assumes "sendOtpValidation (normalizePhone phone0) = Inr ph"
    and "sendOTP ev prov ph = Inr r" "v_status r = ''pending''"
  shows "send_otp ev prov now phone0 store =
     (case otpRateLimiter now (Some ph) store of
        (store', Deny x) \<Rightarrow> (store', Respond x)
      | (store', Next) \<Rightarrow>
          (store', Respond \<lparr>status = 200, success = True,
                            message = Some ''OTP sent successfully'', token = None,
                            isNewUser = None, user = None\<rparr>))"
  using assms
  by (simp add: send_otp_def send_otp_handler_def split: prod.splits limiter_result.splits)

lemma sendOTP_test_mode:
  "sendOTP test_env prov ph
     = Inr \<lparr>v_status = ''pending'', v_to = ph, v_channel = ''sms'', v_valid = True\<rparr>"
  by (simp add: sendOTP_def test_env_def or_default_def)

lemma valid_example:
  "sendOtpValidation (normalizePhone (Some ''+919876543210'')) = Inr ''+919876543210''"
  by (simp add: sendOtpValidation_def normalizePhone_def startsWith_def is_digit_def trim_def
        is_space_def matches_optional91_def mobile10_def Let_def)

text \<open>
  C2, as stated, fails: of three send-code requests for \<open>+919876543210\<close> within one minute
  (at 0, 20 and 40 seconds, in test mode, on an empty store) the third is answered 200
  like the first two, not 429.
\<close>

theorem third_request_allowed:
  "map outcome_status
     (send_otp_seq test_env offline_provider (Some ''+919876543210'') [0, 20000, 40000]
        Map.empty)
   = [Some 200, Some 200, Some 200]"
  by (simp add: send_otp_valid [OF valid_example sendOTP_test_mode] otpRateLimiter_def
        Let_def is_digit_def maxAttempts_def windowMs_def blockDurationMs_def
        outcome_status_def)

text \<open>
  C2, amended. For a phone that passes validation, with a gateway that reports the send
  pending and no limiter entry for the phone yet: of four send-code requests within one
  minute the first three succeed (200) and the fourth is denied (429), and a request made
  301 seconds after the denial succeeds again (200).
\<close>

theorem send_otp_window:
  assumes valid: "sendOtpValidation (normalizePhone (Some p)) = Inr ph"
    and gw: "sendOTP ev prov ph = Inr r" "v_status r = ''pending''"
    and fresh: "store (filter is_digit ph) = None"
    and times: "t1 \<le> t2" "t2 \<le> t3" "t3 \<le> t4" "t4 \<le> t1 + 60000"
  shows "map outcome_status (send_otp_seq ev prov (Some p) [t1, t2, t3, t4, t4 + 301000] store)
         = [Some 200, Some 200, Some 200, Some 429, Some 200]"
proof -
  have ne: "ph \<noteq> []" using valid by (rule sendOtpValidation_nonempty)
  note so = send_otp_valid [OF valid gw]
  show ?thesis
    using ne fresh times
    by (simp add: so otpRateLimiter_def Let_def maxAttempts_def windowMs_def blockDurationMs_def
          outcome_status_def failure_def)
qed

theorem send_otp_window_witness:
  "map outcome_status
     (send_otp_seq test_env offline_provider (Some ''+919876543210'')
        [0, 20000, 40000, 59000, 360000] Map.empty)
   = [Some 200, Some 200, Some 200, Some 429, Some 200]"
proof -
  have fresh: "Map.empty (filter is_digit ''+919876543210'') = (None :: entry option)" by simp
  have st: "v_status \<lparr>v_status = ''pending'', v_to = ''+919876543210'', v_channel = ''sms'',
              v_valid = True\<rparr> = ''pending''" by simp
  from send_otp_window [OF valid_example sendOTP_test_mode st fresh, of 0 20000 40000 59000]
  show ?thesis by simp
qed

section \<open>Session tokens: properties\<close>


















lemma demo_issue:
  "generateToken demo_lib test_env 5000 ''64a1'' ''+919876543210'' = ''header.payload.signature''"
  by (simp add: generateToken_def jwt_sign_def demo_lib_def demo_token_def jwt_secret_def
        jwt_expires_in_def test_env_def or_default_def)


section \<open>The verify-OTP route: properties\<close>

lemma findOne_phone: "findOne d ph = Some u \<Longrightarrow> u_phone u = ph"
  by (auto simp: findOne_def find_Some_iff)

text \<open>
  C6. A verify-code request that passes validation and whose code the gateway reports
  approved: if a profile with the submitted phone exists, the answer is 200 with a token
  issued for that profile's id and \<open>isNewUser\<close> false; if none exists, the answer is 200
  with \<open>isNewUser\<close> true and no token. Either way the store of profiles is returned as
  it was: no profile and no record of the verification is written.
\<close>

theorem verify_otp_approved:
  assumes "phoneValidation phone0 = Inr ph" "otpValidation otp0 = Inr otp"
    and "verifyOTP ev prov ph otp = Inr result" "c_valid result"
      "c_status result = ''approved''"
  shows
  "(\<forall>u. findOne d ph = Some u \<longrightarrow>
      u_phone u = ph \<and>
      verify_otp L ev prov now phone0 otp0 d =
        (d, Respond \<lparr>status = 200, success = True, message = None,
                     token = Some (generateToken L ev now (u_id u) ph),
                     isNewUser = Some False, user = None\<rparr>)) \<and>
   (findOne d ph = None \<longrightarrow>
      verify_otp L ev prov now phone0 otp0 d =
        (d, Respond \<lparr>status = 200, success = True, message = None, token = None,
                     isNewUser = Some True, user = None\<rparr>)) \<and>
   fst (verify_otp L ev prov now phone0 otp0 d) = d"
proof -
  have ph: "u_phone u = ph" if "findOne d ph = Some u" for u
    using that by (rule findOne_phone)
  show ?thesis
    using assms ph
    by (simp add: verify_otp_def verify_otp_handler_def split: option.splits)
qed

lemma verifyOTP_test_mode:
  assumes "TWILIO_VERIFY_SERVICE_SID ev = Some sid" "sid \<noteq> []" "SMS_MODE ev = Some ''test''"
  shows "verifyOTP ev prov ph code =
           Inr \<lparr>c_status = (if length code = 6 \<and> list_all is_digit code
                             then ''approved'' else ''pending''),
                c_valid = (length code = 6 \<and> list_all is_digit code)\<rparr>"
  using assms by (simp add: verifyOTP_def or_default_def matches_d6_def)

lemma phone_example: "phoneValidation (Some ''+919876543210'') = Inr ''+919876543210''"
  by (simp add: phoneValidation_def trim_def is_space_def matches_plus91_def startsWith_def
        mobile10_def is_digit_def Let_def)

lemma otp_example: "otpValidation (Some ''123456'') = Inr ''123456''"
  by (simp add: otpValidation_def trim_def is_space_def matches_d6_def is_digit_def Let_def)

theorem verify_otp_approved_witness:
  "verify_otp demo_lib test_env offline_provider 5000 (Some ''+919876543210'') (Some ''123456'')
      [asha]
     = ([asha], Respond \<lparr>status = 200, success = True, message = None,
                          token = Some ''header.payload.signature'',
                          isNewUser = Some False, user = None\<rparr>) \<and>
   verify_otp demo_lib test_env offline_provider 5000 (Some ''+919876543210'') (Some ''123456'')
      []
     = ([], Respond \<lparr>status = 200, success = True, message = None, token = None,
                      isNewUser = Some True, user = None\<rparr>)"
proof -
  have sid: "TWILIO_VERIFY_SERVICE_SID test_env = Some ''VA00''" "''VA00'' \<noteq> []"
    "SMS_MODE test_env = Some ''test''"
    by (simp_all add: test_env_def)
  have gw: "verifyOTP test_env offline_provider ''+919876543210'' ''123456''
              = Inr \<lparr>c_status = ''approved'', c_valid = True\<rparr>"
    by (simp add: verifyOTP_test_mode [OF sid] is_digit_def)
  have v: "c_valid \<lparr>c_status = ''approved'', c_valid = True\<rparr>"
    and st: "c_status \<lparr>c_status = ''approved'', c_valid = True\<rparr> = ''approved''"
    by simp_all
  have f1: "findOne [asha] ''+919876543210'' = Some asha"
    and f2: "findOne [] ''+919876543210'' = None"
    by (simp_all add: findOne_def asha_def)
  have id: "u_id asha = ''64a1''" by (simp add: asha_def)
  from verify_otp_approved [OF phone_example otp_example gw v st, of "[asha]" demo_lib 5000] f1
  have a: "verify_otp demo_lib test_env offline_provider 5000 (Some ''+919876543210'')
             (Some ''123456'') [asha]
     = ([asha], Respond \<lparr>status = 200, success = True, message = None,
           token = Some (generateToken demo_lib test_env 5000 (u_id asha) ''+919876543210''),
           isNewUser = Some False, user = None\<rparr>)" by blast
  from verify_otp_approved [OF phone_example otp_example gw v st, of "[]" demo_lib 5000] f2
  have b: "verify_otp demo_lib test_env offline_provider 5000 (Some ''+919876543210'')
             (Some ''123456'') []
     = ([], Respond \<lparr>status = 200, success = True, message = None, token = None,
                      isNewUser = Some True, user = None\<rparr>)" by blast
  from a b show ?thesis by (simp add: id demo_issue)
qed

text \<open>
  C8, as stated, fails: in test mode without the verification-service identifier in the
  environment, the six-digit code \<open>123456\<close> is not reported approved; the check raises the
  configuration error.
\<close>

theorem test_mode_without_service_sid:
  "verifyOTP test_env_no_sid offline_provider ''+919876543210'' ''123456''
     = Inl (Error ''Twilio Verify Service SID not configured'')"
  by (simp add: verifyOTP_def test_env_no_sid_def test_env_def)

text \<open>
  At the endpoint the submitted code is trimmed before it is checked: a six-digit code
  with blanks around it is accepted.
\<close>

lemma padded_code_accepted:
  "snd (verify_otp L test_env offline_provider now (Some ''+919876543210'')
          (Some '' 123456 '') [])
    = Respond \<lparr>status = 200, success = True, message = None, token = None,
                isNewUser = Some True, user = None\<rparr>"
  by (simp add: verify_otp_def verify_otp_handler_def verifyOTP_def test_env_def or_default_def
      phoneValidation_def otpValidation_def trim_def is_space_def matches_plus91_def
      startsWith_def mobile10_def is_digit_def matches_d6_def findOne_def Let_def)

text \<open>So is one with a no-break space in front.\<close>

lemma nbsp_code_accepted:
  "snd (verify_otp L test_env offline_provider now (Some ''+919876543210'')
          (Some (CHR 0xA0 # ''123456'')) [])
    = Respond \<lparr>status = 200, success = True, message = None, token = None,
                isNewUser = Some True, user = None\<rparr>"
  by (simp add: verify_otp_def verify_otp_handler_def verifyOTP_def test_env_def or_default_def
      phoneValidation_def otpValidation_def trim_def is_space_def matches_plus91_def
      startsWith_def mobile10_def is_digit_def matches_d6_def findOne_def Let_def)

lemma otpValidation_reject:
  "\<not> matches_d6 (trim code) \<Longrightarrow> \<exists>m. otpValidation (Some code) = Inl m"
  by (auto simp: otpValidation_def Let_def matches_d6_def)

text \<open>
  C8, amended. In test mode with the verification-service identifier configured, the
  check is a function of the submitted code alone, whatever the provider: a code of
  exactly six decimal digits is reported approved and valid, every other code pending and
  not valid, and the handler answers that with 400. The verify-code endpoint trims the
  submitted code first: a code whose trimmed form is not six decimal digits is answered
  400, and one whose trimmed form is, with a valid phone, is answered 200.
\<close>

theorem verifyOTP_test_mode_predicate:
  assumes "TWILIO_VERIFY_SERVICE_SID ev = Some sid" "sid \<noteq> []" "SMS_MODE ev = Some ''test''"
  shows
  "verifyOTP ev prov ph code =
     Inr \<lparr>c_status = (if length code = 6 \<and> list_all is_digit code
                       then ''approved'' else ''pending''),
          c_valid = (length code = 6 \<and> list_all is_digit code)\<rparr> \<and>
   (\<not> (length code = 6 \<and> list_all is_digit code) \<longrightarrow>
      verify_otp_handler L ev prov now ph code d
        = (d, Respond (failure 400 ''Invalid OTP. Please try again.''))) \<and>
   (\<not> (length (trim code) = 6 \<and> list_all is_digit (trim code)) \<longrightarrow>
      (\<exists>r. verify_otp L ev prov now phone0 (Some code) d = (d, Respond r) \<and> status r = 400)) \<and>
   (length (trim code) = 6 \<and> list_all is_digit (trim code)
      \<and> phoneValidation phone0 = Inr ph \<longrightarrow>
      (\<exists>r. verify_otp L ev prov now phone0 (Some code) d = (d, Respond r) \<and> status r = 200))"
proof -
  note t = verifyOTP_test_mode [OF assms]
  have a: "verify_otp_handler L ev prov now ph code d
        = (d, Respond (failure 400 ''Invalid OTP. Please try again.''))"
    if "\<not> (length code = 6 \<and> list_all is_digit code)"
    using that by (auto simp: verify_otp_handler_def t)
  have b: "\<exists>r. verify_otp L ev prov now phone0 (Some code) d = (d, Respond r) \<and> status r = 400"
    if "\<not> (length (trim code) = 6 \<and> list_all is_digit (trim code))"
  proof -
    from that obtain m where "otpValidation (Some code) = Inl m"
      using otpValidation_reject [of code] by (auto simp: matches_d6_def)
    then show ?thesis
      by (simp add: verify_otp_def failure_def split: sum.splits)
  qed
  have c: "\<exists>r. verify_otp L ev prov now phone0 (Some code) d = (d, Respond r) \<and> status r = 200"
    if "length (trim code) = 6 \<and> list_all is_digit (trim code)
          \<and> phoneValidation phone0 = Inr ph"
  proof -
    from that have "otpValidation (Some code) = Inr (trim code)"
      by (auto simp: otpValidation_def Let_def matches_d6_def)
    then show ?thesis using that
      by (auto simp: verify_otp_def verify_otp_handler_def t split: option.splits)
  qed
  from t a b c show ?thesis by blast
qed

theorem verifyOTP_test_mode_predicate_witness:
  "verifyOTP test_env offline_provider ''+919876543210'' ''123456''
     = Inr \<lparr>c_status = ''approved'', c_valid = True\<rparr> \<and>
   verifyOTP test_env offline_provider ''+919876543210'' ''12a456''
     = Inr \<lparr>c_status = ''pending'', c_valid = False\<rparr> \<and>
   verifyOTP test_env offline_provider ''+919876543210'' ''12345''
     = Inr \<lparr>c_status = ''pending'', c_valid = False\<rparr> \<and>
   verify_otp_handler demo_lib test_env offline_provider 5000 ''+919876543210'' ''12a456'' []
     = ([], Respond (failure 400 ''Invalid OTP. Please try again.'')) \<and>
   (\<exists>r. verify_otp demo_lib test_env offline_provider 5000 (Some ''+919876543210'')
           (Some ''12345'') [] = ([], Respond r) \<and> status r = 400) \<and>
   (\<exists>r. verify_otp demo_lib test_env offline_provider 5000 (Some ''+919876543210'')
           (Some ''123456'') [] = ([], Respond r) \<and> status r = 200)"
proof -
  have sid: "TWILIO_VERIFY_SERVICE_SID test_env = Some ''VA00''" "''VA00'' \<noteq> []"
    "SMS_MODE test_env = Some ''test''"
    by (simp_all add: test_env_def)
  note T = verifyOTP_test_mode_predicate [OF sid]
  have t5: "trim ''12345'' = ''12345''" and t6: "trim ''123456'' = ''123456''"
    by (simp_all add: trim_def is_space_def)
  from T [of offline_provider "''+919876543210''" "''123456''"]
  have a: "verifyOTP test_env offline_provider ''+919876543210'' ''123456''
     = Inr \<lparr>c_status = ''approved'', c_valid = True\<rparr>" by (simp add: is_digit_def)
  from T [of offline_provider "''+919876543210''" "''12a456''" demo_lib 5000 "[]"]
  have b: "verifyOTP test_env offline_provider ''+919876543210'' ''12a456''
     = Inr \<lparr>c_status = ''pending'', c_valid = False\<rparr>"
    and d: "verify_otp_handler demo_lib test_env offline_provider 5000 ''+919876543210''
              ''12a456'' [] = ([], Respond (failure 400 ''Invalid OTP. Please try again.''))"
    by (simp_all add: is_digit_def)
  from T [of offline_provider "''+919876543210''" "''12345''" demo_lib 5000 "[]"
         "Some ''+919876543210''"]
  have c: "verifyOTP test_env offline_provider ''+919876543210'' ''12345''
     = Inr \<lparr>c_status = ''pending'', c_valid = False\<rparr>"
    and e: "\<exists>r. verify_otp demo_lib test_env offline_provider 5000 (Some ''+919876543210'')
           (Some ''12345'') [] = ([], Respond r) \<and> status r = 400"
    by (simp_all add: t5)
  from T [of offline_provider "''+919876543210''" "''123456''" demo_lib 5000 "[]"
         "Some ''+919876543210''"] phone_example
  have f: "\<exists>r. verify_otp demo_lib test_env offline_provider 5000 (Some ''+919876543210'')
           (Some ''123456'') [] = ([], Respond r) \<and> status r = 200"
    by (simp add: t6 is_digit_def)
  from a b c d e f show ?thesis by blast
qed

section \<open>The register route: properties\<close>

lemma findOne_None: "findOne d ph = None \<longleftrightarrow> \<not> taken ph d"
  by (auto simp: findOne_def taken_def find_None_iff list_ex_iff)

lemma taken_append: "taken ph d \<Longrightarrow> taken ph (d @ xs)"
  by (simp add: taken_def)

lemma new_User_phone: "u_phone (new_User i ph nm body) = ph"
  by (simp add: new_User_def)

lemma taken_call_doc: "taken (r_phone c) (d @ [call_doc c])"
  by (simp add: taken_def call_doc_def new_User_phone)

text \<open>The three ways a call can take a step, given that the schema accepts its document.\<close>

lemma register_step_cases:
  assumes v: "validate (call_doc c) = []"
    and s: "register_step L ev validate c pc d = Some (pc', d')"
  shows "(pc = AtCheck \<and> \<not> taken (r_phone c) d \<and> pc' = AtWrite \<and> d' = d)
       \<or> ((pc = AtCheck \<or> pc = AtWrite) \<and> taken (r_phone c) d
            \<and> pc' = Answered (Respond already_exists) \<and> d' = d)
       \<or> (pc = AtWrite \<and> \<not> taken (r_phone c) d \<and> pc' = Answered (created L ev c)
            \<and> d' = d @ [call_doc c])"
proof (cases pc)
  case AtCheck
  show ?thesis
  proof (cases "findOne d (r_phone c)")
    case None
    with s AtCheck show ?thesis
      using findOne_None [of d "r_phone c"] by (simp add: register_step_def register_check_def)
  next
    case (Some u)
    with s AtCheck show ?thesis
      using findOne_None [of d "r_phone c"] by (simp add: register_step_def register_check_def)
  qed
next
  case AtWrite
  show ?thesis
  proof (cases "taken (r_phone c) d")
    case True
    then have "save validate (call_doc c) d = Inl duplicate_key_error"
      using v by (simp add: save_def taken_def call_doc_def new_User_phone)
    with s AtWrite True show ?thesis
      by (simp add: register_step_def register_write_def register_catch_def
            duplicate_key_error_def call_doc_def [symmetric])
  next
    case False
    then have "save validate (call_doc c) d = Inr (d @ [call_doc c])"
      using v by (simp add: save_def taken_def call_doc_def new_User_phone)
    with s AtWrite False show ?thesis
      by (auto simp: register_step_def register_write_def created_def call_doc_def [symmetric])
  qed
next
  case (Answered x)
  with s show ?thesis by (simp add: register_step_def)
qed

lemma register_step_inv:
  assumes v: "validate (call_doc c) = []"
    and same: "r_phone c = r_phone c'"
    and s: "register_step L ev validate c pc d = Some (pc', d')"
    and i: "answered_ok L ev c pc d" "answered_ok L ev c' pc2 d"
  shows "answered_ok L ev c pc' d' \<and> answered_ok L ev c' pc2 d'"
  using register_step_cases [OF v s] i same taken_call_doc [of c d]
  by (auto simp: answered_ok_def taken_append split: progress.splits)

lemma register_step_last:
  assumes v: "validate (call_doc c) = []"
    and same: "r_phone c = r_phone c'"
    and s: "register_step L ev validate c pc d = Some (Answered out, d')"
    and i: "answered_ok L ev c' (Answered out2) d"
  shows "out = Respond already_exists"
  using register_step_cases [OF v s] i same
  by (auto simp: answered_ok_def)

lemma run_register_last:
  assumes va: "validate (call_doc a) = []" and vb: "validate (call_doc b) = []"
    and same: "r_phone a = r_phone b"
  shows "answered_ok L ev a pa d \<Longrightarrow> answered_ok L ev b pb d \<Longrightarrow> sched \<noteq> [] \<Longrightarrow>
    run_register L ev validate a b sched (pa, pb, d) = Some (Answered oa, Answered ob, d') \<Longrightarrow>
    (if last sched then oa = Respond already_exists else ob = Respond already_exists)
    \<and> (oa = Respond already_exists \<or> oa = created L ev a)
    \<and> (ob = Respond already_exists \<or> ob = created L ev b)"
proof (induction sched arbitrary: pa pb d)
  case Nil
  then show ?case by simp
next
  case (Cons x sched)
  show ?case
  proof (cases x)
    case True
    from Cons.prems(4) True obtain pa' d1 where
      st: "register_step L ev validate a pa d = Some (pa', d1)"
      and rest: "run_register L ev validate a b sched (pa', pb, d1)
                   = Some (Answered oa, Answered ob, d')"
      by (auto split: option.splits)
    from register_step_inv [OF va same st Cons.prems(1) Cons.prems(2)]
    have inv: "answered_ok L ev a pa' d1" "answered_ok L ev b pb d1" by simp_all
    show ?thesis
    proof (cases sched)
      case Nil
      with rest have e: "pa' = Answered oa" "pb = Answered ob" "d1 = d'" by simp_all
      from st e have st': "register_step L ev validate a pa d = Some (Answered oa, d')" by simp
      from Cons.prems(2) e have ib: "answered_ok L ev b (Answered ob) d" by simp
      have "oa = Respond already_exists" by (rule register_step_last [OF va same st' ib])
      moreover from ib have "ob = Respond already_exists \<or> ob = created L ev b"
        by (simp add: answered_ok_def)
      ultimately show ?thesis using True Nil by simp
    next
      case (Cons y ys)
      then have "sched \<noteq> []" by simp
      from Cons.IH [OF inv this rest] show ?thesis using Cons by simp
    qed
  next
    case False
    from Cons.prems(4) False obtain pb' d1 where
      st: "register_step L ev validate b pb d = Some (pb', d1)"
      and rest: "run_register L ev validate a b sched (pa, pb', d1)
                   = Some (Answered oa, Answered ob, d')"
      by (auto split: option.splits)
    from register_step_inv [OF vb same [symmetric] st Cons.prems(2) Cons.prems(1)]
    have inv: "answered_ok L ev a pa d1" "answered_ok L ev b pb' d1" by simp_all
    show ?thesis
    proof (cases sched)
      case Nil
      with rest have e: "pa = Answered oa" "pb' = Answered ob" "d1 = d'" by simp_all
      from st e have st': "register_step L ev validate b pb d = Some (Answered ob, d')" by simp
      from Cons.prems(1) e have ia: "answered_ok L ev a (Answered oa) d" by simp
      have "ob = Respond already_exists"
        by (rule register_step_last [OF vb same [symmetric] st' ia])
      moreover from ia have "oa = Respond already_exists \<or> oa = created L ev a"
        by (simp add: answered_ok_def)
      ultimately show ?thesis using False Nil by simp
    next
      case (Cons y ys)
      then have "sched \<noteq> []" by simp
      from Cons.IH [OF inv this rest] show ?thesis using Cons by simp
    qed
  qed
qed

text \<open>
  One call after the other: whatever the first call was answered, the second call for the
  same phone is answered by the pre-check.
\<close>

lemma register_twice:
  assumes "validate (call_doc a) = []" "r_phone a = r_phone b"
    and "register_handler L ev validate (r_now a) (r_newid a) (r_phone a) (r_name a) (r_body a) d
           = (d1, oa)"
  shows "register_handler L ev validate (r_now b) (r_newid b) (r_phone b) (r_name b) (r_body b) d1
           = (d1, Respond already_exists)"
proof -
  have "taken (r_phone a) d1"
  proof (cases "taken (r_phone a) d")
    case True
    then have "findOne d (r_phone a) \<noteq> None" by (simp add: findOne_None)
    with assms(3) have "d1 = d"
      by (auto simp: register_handler_def register_check_def split: option.splits)
    with True show ?thesis by simp
  next
    case False
    then have "findOne d (r_phone a) = None" by (simp add: findOne_None)
    moreover from False assms(1)
    have "save validate (call_doc a) d = Inr (d @ [call_doc a])"
      by (simp add: save_def taken_def call_doc_def new_User_phone)
    ultimately have "d1 = d @ [call_doc a]"
      using assms(3)
      by (simp add: register_handler_def register_check_def register_write_def
            call_doc_def [symmetric])
    then show ?thesis by (simp add: taken_call_doc)
  qed
  then have "findOne d1 (r_phone b) \<noteq> None" using assms(2) by (simp add: findOne_None)
  then show ?thesis
    by (auto simp: register_handler_def register_check_def split: option.splits)
qed

lemma race_example:
  "run_register demo_lib test_env (\<lambda>_. []) call_a call_b [True, False, False, True]
      (AtCheck, AtCheck, [])
     = Some (Answered (Respond already_exists), Answered (created demo_lib test_env call_b),
             [call_doc call_b])"
  by (simp add: register_step_def register_check_def register_write_def register_catch_def
        findOne_def save_def duplicate_key_error_def created_def call_doc_def new_User_phone
        call_a_def call_b_def)

text \<open>
  C3, as stated, fails: the call that arrives second is not always the one that fails.
  Two calls for \<open>+919876543210\<close> on an empty store: the first call makes its pre-check,
  then the second call makes its pre-check and its write, then the first call makes its
  write. The call that arrived second is answered 201 with its token, and the call that
  arrived first is answered 400 "User with this phone number already exists".
\<close>

theorem second_arrival_registered:
  "run_register demo_lib test_env (\<lambda>_. []) call_a call_b [True, False, False, True]
      (AtCheck, AtCheck, [])
     = Some (Answered (Respond (failure 400 ''User with this phone number already exists'')),
             Answered (Respond \<lparr>status = 201, success = True, message = None,
                token = Some (generateToken demo_lib test_env 1001 ''64b2'' ''+919876543210''),
                isNewUser = None, user = None\<rparr>),
             [call_doc call_b])"
  using race_example by (simp add: created_def already_exists_def call_b_def)

text \<open>
  C3, amended. The duplicate pre-check and the handler's \<^verbatim>\<open>catch\<close> of a store error with
  code 11000 give the same response: status 400, "User with this phone number already
  exists". And for two register calls with the same phone whose documents the schema
  accepts, running concurrently under any schedule of their store accesses until both
  have answered: the call that makes the last store access (under a race this may be the
  call that arrived first) is answered with that 400 response, and each call is answered
  either with it or with its own 201; none ends in the central error handler.
\<close>

theorem register_duplicate:
  "(\<forall>e. err_code e = Some 11000 \<longrightarrow> register_catch e = Respond already_exists) \<and>
   (\<forall>ph d u. findOne d ph = Some u \<longrightarrow> register_check ph d = Some already_exists) \<and>
   status already_exists = 400 \<and>
   message already_exists = Some ''User with this phone number already exists'' \<and>
   (\<forall>a b sched d oa ob d'.
      r_phone a = r_phone b \<and> validate (call_doc a) = [] \<and> validate (call_doc b) = [] \<and>
      run_register L ev validate a b sched (AtCheck, AtCheck, d)
        = Some (Answered oa, Answered ob, d') \<longrightarrow>
      (if last sched then oa = Respond already_exists else ob = Respond already_exists) \<and>
      (oa = Respond already_exists \<or> oa = created L ev a) \<and>
      (ob = Respond already_exists \<or> ob = created L ev b))"
proof -
  have c1: "register_catch e = Respond already_exists" if "err_code e = Some 11000" for e
    using that by (simp add: register_catch_def)
  have c2: "register_check ph d = Some already_exists" if "findOne d ph = Some u" for ph d u
    using that by (simp add: register_check_def)
  have c3: "status already_exists = 400"
    "message already_exists = Some ''User with this phone number already exists''"
    by (simp_all add: already_exists_def failure_def)
  have c4: "(if last sched then oa = Respond already_exists else ob = Respond already_exists) \<and>
      (oa = Respond already_exists \<or> oa = created L ev a) \<and>
      (ob = Respond already_exists \<or> ob = created L ev b)"
    if h: "r_phone a = r_phone b \<and> validate (call_doc a) = [] \<and> validate (call_doc b) = [] \<and>
      run_register L ev validate a b sched (AtCheck, AtCheck, d)
        = Some (Answered oa, Answered ob, d')" for a b sched d oa ob d'
  proof -
    from h have ne: "sched \<noteq> []" by (cases sched) auto
    have i: "answered_ok L ev a AtCheck d" "answered_ok L ev b AtCheck d"
      by (simp_all add: answered_ok_def)
    from h show ?thesis
      using run_register_last [of validate a b L ev AtCheck d AtCheck sched oa ob d'] i ne
      by blast
  qed
  from c1 c2 c3 c4 show ?thesis by blast
qed

theorem register_duplicate_witness:
  "r_phone call_a = r_phone call_b \<and>
   run_register demo_lib test_env (\<lambda>_. []) call_a call_b [True, False, False, True]
      (AtCheck, AtCheck, [])
     = Some (Answered (Respond already_exists), Answered (created demo_lib test_env call_b),
             [call_doc call_b]) \<and>
   last [True, False, False, True] \<and>
   Respond already_exists = Respond (failure 400 ''User with this phone number already exists'') \<and>
   register_catch duplicate_key_error = Respond already_exists \<and>
   register_check ''+919876543210'' [asha] = Some already_exists"
proof -
  note T = register_duplicate [of "\<lambda>_. []" demo_lib test_env]
  have same: "r_phone call_a = r_phone call_b" by (simp add: call_a_def call_b_def)
  from T have "\<forall>e. err_code e = Some 11000 \<longrightarrow> register_catch e = Respond already_exists"
    by blast
  then have k: "register_catch duplicate_key_error = Respond already_exists"
    by (simp add: duplicate_key_error_def)
  from T have "\<forall>ph d u. findOne d ph = Some u \<longrightarrow> register_check ph d = Some already_exists"
    by blast
  then have f: "register_check ''+919876543210'' [asha] = Some already_exists"
    by (simp add: findOne_def asha_def)
  from T have R: "\<forall>a b sched d oa ob d'.
      r_phone a = r_phone b \<and> [] = ([] :: string list) \<and> [] = ([] :: string list) \<and>
      run_register demo_lib test_env (\<lambda>_. []) a b sched (AtCheck, AtCheck, d)
        = Some (Answered oa, Answered ob, d') \<longrightarrow>
      (if last sched then oa = Respond already_exists else ob = Respond already_exists)"
    by blast
  from R [rule_format, of call_a call_b "[True, False, False, True]" "[]"
           "Respond already_exists" "created demo_lib test_env call_b" "[call_doc call_b]"]
    same race_example
  have l: "last [True, False, False, True]" by simp
  from same race_example l k f show ?thesis by (simp add: already_exists_def)
qed

section \<open>The update-profile route: properties\<close>

lemma strip_update_phone:
  "map_of (strip_update body) ''phone''
     = (if truthy_prop (map_of body ''phone'') then None else map_of body ''phone'')"
  by (simp add: strip_update_def Let_def delete_conv')

text \<open>The system-managed fields never reach the update, whatever the body.\<close>

lemma strip_update_managed:
  "map_of (strip_update body) ''__v'' = None"
  "map_of (strip_update body) ''createdAt'' = None"
  "map_of (strip_update body) ''updatedAt'' = None"
  "map_of (strip_update body) ''joinedDate'' = None"
  by (simp_all add: strip_update_def Let_def delete_conv')

text \<open>A body with only a truthy phone is answered 400, and the store is as it was.\<close>

lemma truthy_phone_only:
  "truthy v \<Longrightarrow> update_profile_handler F uid [(''phone'', v)] d
                 = (d, Respond (failure 400 ''No fields to update''))"
  by (simp add: update_profile_handler_def strip_update_def Let_def truthy_prop_def)

lemma no_fields_distinct:
  "update_catch e \<noteq> Respond (failure 400 ''No fields to update'')"
  by (simp add: update_catch_def failure_def)

text \<open>
  C5 does not hold of the code: for the bodies \<^verbatim>\<open>{"phone": ""}\<close> and \<^verbatim>\<open>{"phone": 0}\<close> the
  phone stays in the update data, and the handler goes on to the store's update with it
  instead of answering 400 "No fields to update".
\<close>

theorem update_profile_phone_not_stripped:
  "strip_update [(''phone'', JStr [])] = [(''phone'', JStr [])] \<and>
   strip_update [(''phone'', JNum 0)] = [(''phone'', JNum 0)] \<and>
   update_profile_handler F uid [(''phone'', JStr [])] d =
     (case F uid [(''phone'', JStr [])] d of
        Inl e \<Rightarrow> (d, update_catch e)
      | Inr (d', None) \<Rightarrow> (d', Respond (failure 404 ''User not found''))
      | Inr (d', Some u) \<Rightarrow>
          (d', Respond \<lparr>status = 200, success = True, message = None, token = None,
                        isNewUser = None, user = Some (toObject u)\<rparr>))"
  by (simp add: update_profile_handler_def strip_update_def parse_dateOfBirth_def Let_def
        truthy_prop_def)

text \<open>
  C10. The phone is deleted from the update data exactly when its value is truthy. For a
  body whose only key is \<open>phone\<close> with a falsy value, the update data is the body itself;
  the handler does not answer 400 "No fields to update" but calls the store's update with
  data that still contain the phone, and answers according to the store's result.
\<close>

theorem falsy_phone_kept:
  assumes "\<not> truthy v"
  shows
  "strip_update [(''phone'', v)] = [(''phone'', v)] \<and>
   update_profile_handler F uid [(''phone'', v)] d =
     (case F uid [(''phone'', v)] d of
        Inl e \<Rightarrow> (d, update_catch e)
      | Inr (d', None) \<Rightarrow> (d', Respond (failure 404 ''User not found''))
      | Inr (d', Some u) \<Rightarrow>
          (d', Respond \<lparr>status = 200, success = True, message = None, token = None,
                        isNewUser = None, user = Some (toObject u)\<rparr>)) \<and>
   snd (update_profile_handler F uid [(''phone'', v)] d)
     \<noteq> Respond (failure 400 ''No fields to update'') \<and>
   (\<forall>body. map_of (strip_update body) ''phone''
     = (if truthy_prop (map_of body ''phone'') then None else map_of body ''phone''))"
proof -
  have s: "strip_update [(''phone'', v)] = [(''phone'', v)]"
    using assms by (simp add: strip_update_def Let_def truthy_prop_def)
  have p: "parse_dateOfBirth [(''phone'', v)] = [(''phone'', v)]"
    by (simp add: parse_dateOfBirth_def)
  have h: "update_profile_handler F uid [(''phone'', v)] d =
     (case F uid [(''phone'', v)] d of
        Inl e \<Rightarrow> (d, update_catch e)
      | Inr (d', None) \<Rightarrow> (d', Respond (failure 404 ''User not found''))
      | Inr (d', Some u) \<Rightarrow>
          (d', Respond \<lparr>status = 200, success = True, message = None, token = None,
                        isNewUser = None, user = Some (toObject u)\<rparr>))"
    by (simp add: update_profile_handler_def Let_def s p)
  have n: "snd (update_profile_handler F uid [(''phone'', v)] d)
     \<noteq> Respond (failure 400 ''No fields to update'')"
    unfolding h using no_fields_distinct
    by (auto simp: failure_def split: sum.splits prod.splits option.splits)
  from s h n strip_update_phone show ?thesis by blast
qed

theorem falsy_phone_kept_witness:
  "\<not> truthy (JStr []) \<and>
   strip_update [(''phone'', JStr [])] = [(''phone'', JStr [])] \<and>
   update_profile_handler
       (\<lambda>uid upd d. if upd = [(''phone'', JStr [])] then Inr (d, Some asha) else Inr (d, None))
       ''64a1'' [(''phone'', JStr [])] [asha]
     = ([asha], Respond \<lparr>status = 200, success = True, message = None, token = None,
                          isNewUser = None, user = Some (toObject asha)\<rparr>)"
proof -
  have f: "\<not> truthy (JStr [])" by simp
  from falsy_phone_kept [OF f, of
      "\<lambda>uid upd d. if upd = [(''phone'', JStr [])] then Inr (d, Some asha) else Inr (d, None)"
      "''64a1''" "[asha]"]
  show ?thesis by simp
qed

end
